theory Spec2Isabelle
  imports Main
begin

section \<open>Errors and panics\<close>

text \<open>
  The package declares three error sentinels (\<open>PERMISSION_ERROR\<close>, \<open>INVALID_PATH_ERROR\<close>,
  \<open>InvalidParameterError\<close>), each made by \<open>errors.New\<close>. Every other error value an
  Operator method can return comes out of the storage collaborator; it is carried under
  \<open>StorageError\<close>, unchanged. A Go \<open>error\<close> result is an \<open>error option\<close>, \<open>None\<close> for
  \<open>nil\<close>.
\<close>

datatype 'e error =
    PERMISSION_ERROR
  | INVALID_PATH_ERROR
  | InvalidParameterError
  | StorageError 'e

text \<open>
  Reading a field through a nil pointer stops a Go program with a run-time panic. A method
  that can do so returns \<open>panic + result\<close>, \<open>Inl\<close> the panic.
\<close>

datatype panic = NilPointerDereference

section \<open>The entities of package users\<close>

text \<open>
  Modelled from the spec: the declarations of \<open>users.User\<close>, \<open>users.Device\<close>,
  \<open>users.Stream\<close> and \<open>users.PhoneCarrier\<close> are not part of the sources at hand. The fields
  are those of the spec's data model; the Operator itself reads only \<open>User.UserId\<close>,
  \<open>Device.UserId\<close>, \<open>Device.DeviceId\<close> and \<open>Stream.StreamId\<close>. A pointer to an entity is
  an \<open>option\<close>, \<open>None\<close> for \<open>nil\<close>; the \<open>int64\<close> identifiers are only passed on and
  compared, and are integers here.
\<close>

record User =
  UserId :: int
  Name :: string
  Email :: string

record Device =
  DeviceId :: int
  Name :: string
  ApiKey :: string
  UserId :: int

record Stream =
  StreamId :: int
  Name :: string
  Type :: string
  DeviceId :: int

record PhoneCarrier =
  Id :: int
  Name :: string
  EmailDomain :: string

section \<open>Permission levels\<close>

text \<open>
  Modelled from the spec: \<open>users.PermissionLevel\<close> and its method \<open>Gte\<close> are not part of
  the sources at hand. The spec gives a totally ordered scale
  NONE < ENABLED < FAMILY < USER < DEVICE < ROOT < ADMIN, compared by a single
  greater-or-equal predicate.
\<close>

datatype PermissionLevel = NONE | ENABLED | FAMILY | USER | DEVICE | ROOT | ADMIN

text \<open>Modelled from the spec: the position of a level on the scale, lowest first.\<close>

fun rank :: "PermissionLevel \<Rightarrow> nat" where
  "rank NONE = 0"
| "rank ENABLED = 1"
| "rank FAMILY = 2"
| "rank USER = 3"
| "rank DEVICE = 4"
| "rank ROOT = 5"
| "rank ADMIN = 6"

text \<open>
  Modelled from the spec: \<open>actual.Gte(requested)\<close>, missing from the sources, is the
  greater-or-equal comparison of the scale.
\<close>

definition Gte :: "PermissionLevel \<Rightarrow> PermissionLevel \<Rightarrow> bool" where
  "Gte actual requested = (rank requested \<le> rank actual)"

section \<open>The relation engine\<close>

text \<open>
  The four relation methods of \<open>*users.Device\<close> that the Operator calls are not part of the
  sources at hand. The Operator is therefore embedded over an arbitrary implementation of
  them: a record of four total functions of the acting Device pointer (nil for the
  administrator) and the target pointers.
\<close>

record RelationEngine =
  GeneralPermissions :: "Device option \<Rightarrow> PermissionLevel"
  RelationToUser :: "Device option \<Rightarrow> User option \<Rightarrow> PermissionLevel"
  RelationToDevice :: "Device option \<Rightarrow> Device option \<Rightarrow> PermissionLevel"
  RelationToStream :: "Device option \<Rightarrow> Stream option \<Rightarrow> Device option \<Rightarrow> PermissionLevel"

text \<open>
  Modelled from the spec: the relation methods of \<open>*users.Device\<close>, which are missing from
  the sources. The spec fixes the administrator rule (a nil acting Device holds the maximum
  level toward every target), the fall-back to GeneralPermissions, the DEVICE tier of a
  Device toward itself, and that a Stream is governed by its owning Device. It leaves open
  how the capability flags give the baseline level, which level at or above USER a Device
  holds toward its own owner, and which level at or above FAMILY toward a sibling Device;
  these three are the fields of \<open>Grants\<close>.
\<close>

record Grants =
  baseline :: "Device \<Rightarrow> PermissionLevel"
  ownerTier :: "Device \<Rightarrow> PermissionLevel"
  familyTier :: "Device \<Rightarrow> PermissionLevel"

text \<open>
  Modelled from the spec: the bounds it puts on the two tiers, USER or above toward the
  owner and FAMILY or above toward a sibling.
\<close>

definition grants_ok :: "Grants \<Rightarrow> bool" where
  "grants_ok g = (\<forall>d. Gte (ownerTier g d) USER \<and> Gte (familyTier g d) FAMILY)"

text \<open>
  Modelled from the spec: \<open>GeneralPermissions\<close>, missing from the sources. The
  administrator holds the maximum level, a Device its baseline.
\<close>

fun spec_GeneralPermissions :: "Grants \<Rightarrow> Device option \<Rightarrow> PermissionLevel" where
  "spec_GeneralPermissions g None = ADMIN"
| "spec_GeneralPermissions g (Some d) = baseline g d"

text \<open>
  Modelled from the spec: \<open>RelationToUser\<close>, missing from the sources. A Device whose
  owning User is the target holds its owner tier, any other Device (and a Device asked
  about no user) its GeneralPermissions.
\<close>

fun spec_RelationToUser :: "Grants \<Rightarrow> Device option \<Rightarrow> User option \<Rightarrow> PermissionLevel" where
  "spec_RelationToUser g None target = ADMIN"
| "spec_RelationToUser g (Some d) (Some u) =
     (if Device.UserId d = User.UserId u then ownerTier g d else baseline g d)"
| "spec_RelationToUser g (Some d) None = baseline g d"

text \<open>
  Modelled from the spec: \<open>RelationToDevice\<close>, missing from the sources. The target that
  is the acting Device itself gives the DEVICE tier, a target of the same owning User the
  family tier, any other the GeneralPermissions.
\<close>

fun spec_RelationToDevice :: "Grants \<Rightarrow> Device option \<Rightarrow> Device option \<Rightarrow> PermissionLevel" where
  "spec_RelationToDevice g None target = ADMIN"
| "spec_RelationToDevice g (Some d) (Some t) =
     (if Device.DeviceId t = Device.DeviceId d then DEVICE
      else if Device.UserId t = Device.UserId d then familyTier g d
      else baseline g d)"
| "spec_RelationToDevice g (Some d) None = baseline g d"

text \<open>
  Modelled from the spec: \<open>RelationToStream\<close>, missing from the sources, is the relation to
  the Stream's owning Device.
\<close>

definition spec_RelationToStream ::
  "Grants \<Rightarrow> Device option \<Rightarrow> Stream option \<Rightarrow> Device option \<Rightarrow> PermissionLevel" where
  "spec_RelationToStream g actor stream owningDevice = spec_RelationToDevice g actor owningDevice"

text \<open>Modelled from the spec: the four relation methods together.\<close>

definition SpecEngine :: "Grants \<Rightarrow> RelationEngine" where
  "SpecEngine g =
     \<lparr> GeneralPermissions = spec_GeneralPermissions g,
       RelationToUser = spec_RelationToUser g,
       RelationToDevice = spec_RelationToDevice g,
       RelationToStream = spec_RelationToStream g \<rparr>"

text \<open>
  Modelled from the spec: the higher of two levels of the scale, for "the Device's own
  maximum self-level".
\<close>

definition higher :: "PermissionLevel \<Rightarrow> PermissionLevel \<Rightarrow> PermissionLevel" where
  "higher a b = (if Gte a b then a else b)"

text \<open>
  Modelled from the spec: the tiers the missing relation methods give a Device, from its
  baseline level alone. Toward its own owner a Device holds "the Device's own maximum
  self-level (USER-tier or above)", the higher of the USER tier and its baseline; toward a
  sibling "a FAMILY-or-above tier", the higher of the FAMILY tier and its baseline. How the
  capability flags give the baseline is left open: \<open>base\<close> is any function of the Device.
\<close>

definition selfLevelGrants :: "(Device \<Rightarrow> PermissionLevel) \<Rightarrow> Grants" where
  "selfLevelGrants base =
     \<lparr> baseline = base,
       ownerTier = (\<lambda>d. higher USER (base d)),
       familyTier = (\<lambda>d. higher FAMILY (base d)) \<rparr>"

section \<open>The storage collaborator\<close>

text \<open>
  \<open>Database\<close> is declared outside the sources at hand; the Operator uses it through the
  methods below only. Each is a function of the storage state that returns its Go results
  and the state after the call. The storage is a parameter of the embedding: every theorem
  about the Operator holds for every implementation. Its own error values have type \<open>'e\<close>.
\<close>

record ('s, 'e) Database =
  db_CreateUser :: "string \<Rightarrow> string \<Rightarrow> string \<Rightarrow> 's \<Rightarrow> 'e option \<times> 's"
  db_ReadUserByName :: "string \<Rightarrow> 's \<Rightarrow> (User option \<times> 'e option) \<times> 's"
  db_ReadUserById :: "int \<Rightarrow> 's \<Rightarrow> (User option \<times> 'e option) \<times> 's"
  db_ReadUserByEmail :: "string \<Rightarrow> 's \<Rightarrow> (User option \<times> 'e option) \<times> 's"
  db_ReadAllUsers :: "'s \<Rightarrow> (User list \<times> 'e option) \<times> 's"
  db_UpdateUser :: "User option \<Rightarrow> 's \<Rightarrow> 'e option \<times> 's"
  db_DeleteUser :: "int \<Rightarrow> 's \<Rightarrow> 'e option \<times> 's"
  db_CreatePhoneCarrier :: "string \<Rightarrow> string \<Rightarrow> 's \<Rightarrow> 'e option \<times> 's"
  db_ReadPhoneCarrierById :: "int \<Rightarrow> 's \<Rightarrow> (PhoneCarrier option \<times> 'e option) \<times> 's"
  db_ReadAllPhoneCarriers :: "'s \<Rightarrow> (PhoneCarrier list \<times> 'e option) \<times> 's"
  db_UpdatePhoneCarrier :: "PhoneCarrier option \<Rightarrow> 's \<Rightarrow> 'e option \<times> 's"
  db_DeletePhoneCarrier :: "int \<Rightarrow> 's \<Rightarrow> 'e option \<times> 's"
  db_CreateDevice :: "string \<Rightarrow> int \<Rightarrow> 's \<Rightarrow> 'e option \<times> 's"
  db_ReadDevicesForUserId :: "int \<Rightarrow> 's \<Rightarrow> (Device list \<times> 'e option) \<times> 's"
  db_ReadDeviceByApiKey :: "string \<Rightarrow> 's \<Rightarrow> (Device option \<times> 'e option) \<times> 's"
  db_ReadDeviceForUserByName :: "int \<Rightarrow> string \<Rightarrow> 's \<Rightarrow> (Device option \<times> 'e option) \<times> 's"
  db_UpdateDevice :: "Device option \<Rightarrow> 's \<Rightarrow> 'e option \<times> 's"
  db_DeleteDevice :: "int \<Rightarrow> 's \<Rightarrow> 'e option \<times> 's"
  db_CreateStream :: "string \<Rightarrow> string \<Rightarrow> int \<Rightarrow> 's \<Rightarrow> 'e option \<times> 's"
  db_ReadStreamsByDevice :: "int \<Rightarrow> 's \<Rightarrow> (Stream list \<times> 'e option) \<times> 's"
  db_ReadStreamByDeviceIdAndName :: "int \<Rightarrow> string \<Rightarrow> 's \<Rightarrow> (Stream option \<times> 'e option) \<times> 's"
  db_UpdateStream :: "Stream option \<Rightarrow> 's \<Rightarrow> 'e option \<times> 's"
  db_DeleteStream :: "int \<Rightarrow> 's \<Rightarrow> 'e option \<times> 's"

text \<open>
  Storage interaction is observable: the world is the storage state together with the list
  of storage calls made so far, oldest first. A method that leaves the world as it found it
  has not touched the storage.
\<close>

datatype db_call =
    CallCreateUser string string string
  | CallReadUserByName string
  | CallReadUserById int
  | CallReadUserByEmail string
  | CallReadAllUsers
  | CallUpdateUser "User option"
  | CallDeleteUser int
  | CallCreatePhoneCarrier string string
  | CallReadPhoneCarrierById int
  | CallReadAllPhoneCarriers
  | CallUpdatePhoneCarrier "PhoneCarrier option"
  | CallDeletePhoneCarrier int
  | CallCreateDevice string int
  | CallReadDevicesForUserId int
  | CallReadDeviceByApiKey string
  | CallReadDeviceForUserByName int string
  | CallUpdateDevice "Device option"
  | CallDeleteDevice int
  | CallCreateStream string string int
  | CallReadStreamsByDevice int
  | CallReadStreamByDeviceIdAndName int string
  | CallUpdateStream "Stream option"
  | CallDeleteStream int

record 's world =
  store :: 's
  calls :: "db_call list"

text \<open>
  \<open>call_err\<close> runs a storage method whose only result is an error, \<open>call_val\<close> one that
  returns a value and an error. Both record the call and hand the results back as they are.
\<close>

definition call_err ::
  "db_call \<Rightarrow> ('s \<Rightarrow> 'e option \<times> 's) \<Rightarrow> 's world \<Rightarrow> 'e error option \<times> 's world" where
  "call_err c f w =
     (case f (store w) of
        (e, s') \<Rightarrow> (map_option StorageError e, \<lparr> store = s', calls = calls w @ [c] \<rparr>))"

definition call_val ::
  "db_call \<Rightarrow> ('s \<Rightarrow> ('a \<times> 'e option) \<times> 's) \<Rightarrow> 's world
     \<Rightarrow> ('a \<times> 'e error option) \<times> 's world" where
  "call_val c f w =
     (case f (store w) of
        ((v, e), s') \<Rightarrow> ((v, map_option StorageError e), \<lparr> store = s', calls = calls w @ [c] \<rparr>))"

section \<open>The Operator\<close>

record ('s, 'e) Operator =
  db :: "('s, 'e) Database"
  dev :: "Device option"

definition GetAdminOperator :: "('s, 'e) Database \<Rightarrow> ('s, 'e) Operator" where
  "GetAdminOperator database = \<lparr> db = database, dev = None \<rparr>"

definition GetOperator ::
  "('s, 'e) Database \<Rightarrow> string \<Rightarrow> 's world
     \<Rightarrow> (('s, 'e) Operator option \<times> 'e error option) \<times> 's world" where
  "GetOperator database apikey w =
     (case call_val (CallReadDeviceByApiKey apikey) (db_ReadDeviceByApiKey database apikey) w of
        ((d, err), w') \<Rightarrow>
          if err \<noteq> None then ((None, err), w')
          else ((Some \<lparr> db = database, dev = d \<rparr>, None), w'))"

definition GetDevice :: "('s, 'e) Operator \<Rightarrow> Device option" where
  "GetDevice opr = dev opr"

definition GetDatabase :: "('s, 'e) Operator \<Rightarrow> ('s, 'e) Database" where
  "GetDatabase opr = db opr"

text \<open>
  The methods follow, in the order of the source. Each takes the relation engine \<open>us\<close>,
  the Operator \<open>opr\<close>, the arguments of the Go method and the world, and returns the Go
  results and the world after the call.
\<close>

definition CreateUser ::
  "RelationEngine \<Rightarrow> ('s, 'e) Operator \<Rightarrow> string \<Rightarrow> string \<Rightarrow> string \<Rightarrow> 's world
     \<Rightarrow> 'e error option \<times> 's world" where
  "CreateUser us opr username email password w =
     (if \<not> Gte (GeneralPermissions us (dev opr)) ROOT then (Some PERMISSION_ERROR, w)
      else call_err (CallCreateUser username email password)
             (db_CreateUser (GetDatabase opr) username email password) w)"

definition ReadUser ::
  "RelationEngine \<Rightarrow> ('s, 'e) Operator \<Rightarrow> string \<Rightarrow> 's world
     \<Rightarrow> (User option \<times> 'e error option) \<times> 's world" where
  "ReadUser us opr username w =
     (if \<not> Gte (GeneralPermissions us (dev opr)) ROOT then ((None, Some PERMISSION_ERROR), w)
      else call_val (CallReadUserByName username)
             (db_ReadUserByName (GetDatabase opr) username) w)"

definition ReadUserById ::
  "RelationEngine \<Rightarrow> ('s, 'e) Operator \<Rightarrow> int \<Rightarrow> 's world
     \<Rightarrow> (User option \<times> 'e error option) \<times> 's world" where
  "ReadUserById us opr id' w =
     (if \<not> Gte (GeneralPermissions us (dev opr)) ROOT then ((None, Some PERMISSION_ERROR), w)
      else call_val (CallReadUserById id') (db_ReadUserById (GetDatabase opr) id') w)"

definition ReadUserByEmail ::
  "RelationEngine \<Rightarrow> ('s, 'e) Operator \<Rightarrow> string \<Rightarrow> 's world
     \<Rightarrow> (User option \<times> 'e error option) \<times> 's world" where
  "ReadUserByEmail us opr email w =
     (if \<not> Gte (GeneralPermissions us (dev opr)) ROOT then ((None, Some PERMISSION_ERROR), w)
      else call_val (CallReadUserByEmail email)
             (db_ReadUserByEmail (GetDatabase opr) email) w)"

definition ReadAllUsers ::
  "RelationEngine \<Rightarrow> ('s, 'e) Operator \<Rightarrow> 's world
     \<Rightarrow> (User list \<times> 'e error option) \<times> 's world" where
  "ReadAllUsers us opr w =
     (if \<not> Gte (GeneralPermissions us (dev opr)) ROOT then (([], Some PERMISSION_ERROR), w)
      else call_val CallReadAllUsers (db_ReadAllUsers (GetDatabase opr)) w)"

definition UpdateUser ::
  "RelationEngine \<Rightarrow> ('s, 'e) Operator \<Rightarrow> User option \<Rightarrow> 's world
     \<Rightarrow> 'e error option \<times> 's world" where
  "UpdateUser us opr user w =
     (if user = None then (Some InvalidParameterError, w)
      else if \<not> Gte (RelationToUser us (dev opr) user) ROOT then (Some PERMISSION_ERROR, w)
      else call_err (CallUpdateUser user) (db_UpdateUser (GetDatabase opr) user) w)"

definition DeleteUser ::
  "RelationEngine \<Rightarrow> ('s, 'e) Operator \<Rightarrow> int \<Rightarrow> 's world \<Rightarrow> 'e error option \<times> 's world" where
  "DeleteUser us opr id' w =
     (if \<not> Gte (GeneralPermissions us (dev opr)) ROOT then (Some PERMISSION_ERROR, w)
      else call_err (CallDeleteUser id') (db_DeleteUser (GetDatabase opr) id') w)"

definition CreatePhoneCarrier ::
  "RelationEngine \<Rightarrow> ('s, 'e) Operator \<Rightarrow> string \<Rightarrow> string \<Rightarrow> 's world
     \<Rightarrow> 'e error option \<times> 's world" where
  "CreatePhoneCarrier us opr name emailDomain w =
     (if \<not> Gte (GeneralPermissions us (dev opr)) ROOT then (Some PERMISSION_ERROR, w)
      else call_err (CallCreatePhoneCarrier name emailDomain)
             (db_CreatePhoneCarrier (GetDatabase opr) name emailDomain) w)"

definition ReadPhoneCarrierById ::
  "RelationEngine \<Rightarrow> ('s, 'e) Operator \<Rightarrow> int \<Rightarrow> 's world
     \<Rightarrow> (PhoneCarrier option \<times> 'e error option) \<times> 's world" where
  "ReadPhoneCarrierById us opr carrierId w =
     (if \<not> Gte (GeneralPermissions us (dev opr)) ENABLED
      then ((None, Some PERMISSION_ERROR), w)
      else call_val (CallReadPhoneCarrierById carrierId)
             (db_ReadPhoneCarrierById (GetDatabase opr) carrierId) w)"

definition ReadAllPhoneCarriers ::
  "RelationEngine \<Rightarrow> ('s, 'e) Operator \<Rightarrow> 's world
     \<Rightarrow> (PhoneCarrier list \<times> 'e error option) \<times> 's world" where
  "ReadAllPhoneCarriers us opr w =
     (if \<not> Gte (GeneralPermissions us (dev opr)) ENABLED then (([], Some PERMISSION_ERROR), w)
      else call_val CallReadAllPhoneCarriers (db_ReadAllPhoneCarriers (GetDatabase opr)) w)"

definition UpdatePhoneCarrier ::
  "RelationEngine \<Rightarrow> ('s, 'e) Operator \<Rightarrow> PhoneCarrier option \<Rightarrow> 's world
     \<Rightarrow> 'e error option \<times> 's world" where
  "UpdatePhoneCarrier us opr carrier w =
     (if carrier = None then (Some InvalidParameterError, w)
      else if \<not> Gte (GeneralPermissions us (dev opr)) ROOT then (Some PERMISSION_ERROR, w)
      else call_err (CallUpdatePhoneCarrier carrier)
             (db_UpdatePhoneCarrier (GetDatabase opr) carrier) w)"

definition DeletePhoneCarrier ::
  "RelationEngine \<Rightarrow> ('s, 'e) Operator \<Rightarrow> int \<Rightarrow> 's world \<Rightarrow> 'e error option \<times> 's world" where
  "DeletePhoneCarrier us opr carrierId w =
     (if \<not> Gte (GeneralPermissions us (dev opr)) ROOT then (Some PERMISSION_ERROR, w)
      else call_err (CallDeletePhoneCarrier carrierId)
             (db_DeletePhoneCarrier (GetDatabase opr) carrierId) w)"

definition CreateDevice ::
  "RelationEngine \<Rightarrow> ('s, 'e) Operator \<Rightarrow> string \<Rightarrow> User option \<Rightarrow> 's world
     \<Rightarrow> 'e error option \<times> 's world" where
  "CreateDevice us opr name owner w =
     (case owner of
        None \<Rightarrow> (Some InvalidParameterError, w)
      | Some u \<Rightarrow>
          if \<not> Gte (RelationToUser us (dev opr) owner) USER then (Some PERMISSION_ERROR, w)
          else call_err (CallCreateDevice name (User.UserId u))
                 (db_CreateDevice (GetDatabase opr) name (User.UserId u)) w)"

text \<open>
  \<open>ReadDevicesForUser\<close> checks the relation to \<open>u\<close> without testing \<open>u\<close> for nil, and then
  reads \<open>u.UserId\<close>.
\<close>

definition ReadDevicesForUser ::
  "RelationEngine \<Rightarrow> ('s, 'e) Operator \<Rightarrow> User option \<Rightarrow> 's world
     \<Rightarrow> (panic + Device list \<times> 'e error option) \<times> 's world" where
  "ReadDevicesForUser us opr u w =
     (if \<not> Gte (RelationToUser us (dev opr) u) FAMILY then (Inr ([], Some PERMISSION_ERROR), w)
      else case u of
        None \<Rightarrow> (Inl NilPointerDereference, w)
      | Some usr \<Rightarrow>
          (case call_val (CallReadDevicesForUserId (User.UserId usr))
                  (db_ReadDevicesForUserId (GetDatabase opr) (User.UserId usr)) w of
             (r, w') \<Rightarrow> (Inr r, w')))"

definition ReadDeviceByApiKey ::
  "RelationEngine \<Rightarrow> ('s, 'e) Operator \<Rightarrow> string \<Rightarrow> 's world
     \<Rightarrow> (Device option \<times> 'e error option) \<times> 's world" where
  "ReadDeviceByApiKey us opr key w =
     (if \<not> Gte (GeneralPermissions us (dev opr)) ROOT then ((None, Some PERMISSION_ERROR), w)
      else call_val (CallReadDeviceByApiKey key) (db_ReadDeviceByApiKey (db opr) key) w)"

definition UpdateDevice ::
  "RelationEngine \<Rightarrow> ('s, 'e) Operator \<Rightarrow> Device option \<Rightarrow> 's world
     \<Rightarrow> 'e error option \<times> 's world" where
  "UpdateDevice us opr update w =
     (if update = None then (Some InvalidParameterError, w)
      else if \<not> Gte (RelationToDevice us (dev opr) update) DEVICE then (Some PERMISSION_ERROR, w)
      else call_err (CallUpdateDevice update) (db_UpdateDevice (db opr) update) w)"

definition DeleteDevice ::
  "RelationEngine \<Rightarrow> ('s, 'e) Operator \<Rightarrow> Device option \<Rightarrow> 's world
     \<Rightarrow> 'e error option \<times> 's world" where
  "DeleteDevice us opr device w =
     (case device of
        None \<Rightarrow> (Some InvalidParameterError, w)
      | Some d \<Rightarrow>
          if \<not> Gte (RelationToDevice us (dev opr) device) USER then (Some PERMISSION_ERROR, w)
          else call_err (CallDeleteDevice (Device.DeviceId d))
                 (db_DeleteDevice (db opr) (Device.DeviceId d)) w)"

definition CreateStream ::
  "RelationEngine \<Rightarrow> ('s, 'e) Operator \<Rightarrow> string \<Rightarrow> string \<Rightarrow> Device option \<Rightarrow> 's world
     \<Rightarrow> 'e error option \<times> 's world" where
  "CreateStream us opr name type owner w =
     (case owner of
        None \<Rightarrow> (Some InvalidParameterError, w)
      | Some d \<Rightarrow>
          if \<not> Gte (RelationToDevice us (dev opr) owner) USER then (Some PERMISSION_ERROR, w)
          else call_err (CallCreateStream name type (Device.DeviceId d))
                 (db_CreateStream (db opr) name type (Device.DeviceId d)) w)"

text \<open>
  \<open>ReadStreamsByDevice\<close> has no nil test either, and reads \<open>operand.DeviceId\<close> once the
  relation check has passed.
\<close>

definition ReadStreamsByDevice ::
  "RelationEngine \<Rightarrow> ('s, 'e) Operator \<Rightarrow> Device option \<Rightarrow> 's world
     \<Rightarrow> (panic + Stream list \<times> 'e error option) \<times> 's world" where
  "ReadStreamsByDevice us opr operand w =
     (if \<not> Gte (RelationToDevice us (dev opr) operand) FAMILY
      then (Inr ([], Some PERMISSION_ERROR), w)
      else case operand of
        None \<Rightarrow> (Inl NilPointerDereference, w)
      | Some d \<Rightarrow>
          (case call_val (CallReadStreamsByDevice (Device.DeviceId d))
                  (db_ReadStreamsByDevice (db opr) (Device.DeviceId d)) w of
             (r, w') \<Rightarrow> (Inr r, w')))"

text \<open>
  \<open>UpdateStream\<close> and \<open>DeleteStream\<close> start with the relation check: neither tests its
  arguments for nil. \<open>UpdateStream\<close> hands the stream pointer to the storage as it is;
  \<open>DeleteStream\<close> reads \<open>s.StreamId\<close>.
\<close>

definition UpdateStream ::
  "RelationEngine \<Rightarrow> ('s, 'e) Operator \<Rightarrow> Device option \<Rightarrow> Stream option \<Rightarrow> 's world
     \<Rightarrow> 'e error option \<times> 's world" where
  "UpdateStream us opr d stream w =
     (if \<not> Gte (RelationToStream us (dev opr) stream d) USER then (Some PERMISSION_ERROR, w)
      else call_err (CallUpdateStream stream) (db_UpdateStream (db opr) stream) w)"

definition DeleteStream ::
  "RelationEngine \<Rightarrow> ('s, 'e) Operator \<Rightarrow> Device option \<Rightarrow> Stream option \<Rightarrow> 's world
     \<Rightarrow> (panic + 'e error option) \<times> 's world" where
  "DeleteStream us opr d s w =
     (if \<not> Gte (RelationToStream us (dev opr) s d) USER then (Inr (Some PERMISSION_ERROR), w)
      else case s of
        None \<Rightarrow> (Inl NilPointerDereference, w)
      | Some str \<Rightarrow>
          (case call_err (CallDeleteStream (Stream.StreamId str))
                  (db_DeleteStream (db opr) (Stream.StreamId str)) w of
             (e, w') \<Rightarrow> (Inr e, w')))"

section \<open>Path resolution\<close>

text \<open>
  \<open>strings.Split(path, "/")\<close>: the substrings of \<open>path\<close> between the separators, one more
  than there are separators; the empty string gives one empty segment. (The second case of
  the \<open>case\<close> below is never taken: \<open>Split\<close> returns no empty list.)
\<close>

fun Split :: "string \<Rightarrow> string list" where
  "Split [] = [[]]"
| "Split (c # cs) =
     (if c = CHR ''/'' then [] # Split cs
      else (case Split cs of x # xs \<Rightarrow> (c # x) # xs | [] \<Rightarrow> [[c]]))"

text \<open>
  \<open>ResolvePath\<close> has the named results \<open>user\<close>, \<open>device\<close>, \<open>stream\<close> and \<open>err\<close>, all nil at
  entry. It is embedded as its three phases, each ending in the next.

  The last phase: \<open>device\<close> and \<open>err\<close> are the named results as the device phase left them.
  \<open>device.DeviceId\<close> is read before the storage is called.
\<close>

definition ResolvePath_stream ::
  "('s, 'e) Operator \<Rightarrow> string \<Rightarrow> User option \<Rightarrow> Device option \<Rightarrow> 'e error option \<Rightarrow> 's world
     \<Rightarrow> (panic + User option \<times> Device option \<times> Stream option \<times> 'e error option) \<times> 's world"
  where
  "ResolvePath_stream opr sname user device err w =
     (if sname \<noteq> [] then
        (case device of
           None \<Rightarrow> (Inl NilPointerDereference, w)
         | Some d \<Rightarrow>
             (case call_val (CallReadStreamByDeviceIdAndName (Device.DeviceId d) sname)
                     (db_ReadStreamByDeviceIdAndName (db opr) (Device.DeviceId d) sname) w of
                ((stream, err'), w') \<Rightarrow> (Inr (user, device, stream, err'), w')))
      else (Inr (user, device, None, err), w))"

text \<open>
  The device phase. In the branch of a non-empty device segment the source writes
  \<open>device, err := o.db.ReadDeviceForUserByName(user.UserId, dname)\<close>: the short declaration
  makes two new variables, local to that branch. The \<open>return\<close> inside the branch returns
  them; after the branch the named results \<open>device\<close> (still nil) and \<open>err\<close> are what the
  stream phase sees.
\<close>

definition ResolvePath_device ::
  "('s, 'e) Operator \<Rightarrow> string \<Rightarrow> string \<Rightarrow> User option \<Rightarrow> 'e error option \<Rightarrow> 's world
     \<Rightarrow> (panic + User option \<times> Device option \<times> Stream option \<times> 'e error option) \<times> 's world"
  where
  "ResolvePath_device opr dname sname user err w =
     (if dname = [] then ResolvePath_stream opr sname user (GetDevice opr) err w
      else
        (case user of
           None \<Rightarrow> (Inl NilPointerDereference, w)
         | Some u \<Rightarrow>
             (case call_val (CallReadDeviceForUserByName (User.UserId u) dname)
                     (db_ReadDeviceForUserByName (db opr) (User.UserId u) dname) w of
                ((device', err'), w') \<Rightarrow>
                  if err' \<noteq> None then (Inr (user, device', None, err'), w')
                  else ResolvePath_stream opr sname user None err w')))"

text \<open>
  The user phase: both branches of \<open>if uname == ""\<close> are written out as in the source.
  \<open>o.GetDevice().UserId\<close> is the argument of \<open>o.ReadUserById\<close>, so it is read first.
\<close>

definition ResolvePath_user ::
  "RelationEngine \<Rightarrow> ('s, 'e) Operator \<Rightarrow> string \<Rightarrow> string \<Rightarrow> string \<Rightarrow> 's world
     \<Rightarrow> (panic + User option \<times> Device option \<times> Stream option \<times> 'e error option) \<times> 's world"
  where
  "ResolvePath_user us opr uname dname sname w =
     (if uname = [] then
        (case GetDevice opr of
           None \<Rightarrow> (Inl NilPointerDereference, w)
         | Some od \<Rightarrow>
             (case ReadUserById us opr (Device.UserId od) w of
                ((user, err), w') \<Rightarrow>
                  if err \<noteq> None then (Inr (user, None, None, err), w')
                  else ResolvePath_device opr dname sname user err w'))
      else
        (case GetDevice opr of
           None \<Rightarrow> (Inl NilPointerDereference, w)
         | Some od \<Rightarrow>
             (case ReadUserById us opr (Device.UserId od) w of
                ((user, err), w') \<Rightarrow>
                  if err \<noteq> None then (Inr (user, None, None, err), w')
                  else ResolvePath_device opr dname sname user err w')))"

definition ResolvePath ::
  "RelationEngine \<Rightarrow> ('s, 'e) Operator \<Rightarrow> string \<Rightarrow> 's world
     \<Rightarrow> (panic + User option \<times> Device option \<times> Stream option \<times> 'e error option) \<times> 's world"
  where
  "ResolvePath us opr path w =
     (let pathsplit = Split path in
      if length pathsplit \<noteq> 3 then (Inr (None, None, None, Some INVALID_PATH_ERROR), w)
      else ResolvePath_user us opr (pathsplit ! 0) (pathsplit ! 1) (pathsplit ! 2) w)"

section \<open>What it means to delegate\<close>

text \<open>
  A method delegates a call to the storage when the world it returns differs from the one it
  was given by exactly that call: the storage state is the one the storage method left, the
  call is the single new entry of the call list, and the results are those of the storage
  method, as they are.
\<close>

definition delegated_err ::
  "db_call \<Rightarrow> ('s \<Rightarrow> 'e option \<times> 's) \<Rightarrow> 's world \<Rightarrow> 'e error option \<times> 's world \<Rightarrow> bool" where
  "delegated_err c f w r =
     (fst r = map_option StorageError (fst (f (store w)))
      \<and> store (snd r) = snd (f (store w))
      \<and> calls (snd r) = calls w @ [c])"

definition delegated_val ::
  "db_call \<Rightarrow> ('s \<Rightarrow> ('a \<times> 'e option) \<times> 's) \<Rightarrow> 's world
     \<Rightarrow> ('a \<times> 'e error option) \<times> 's world \<Rightarrow> bool" where
  "delegated_val c f w r =
     (fst (fst r) = fst (fst (f (store w)))
      \<and> snd (fst r) = map_option StorageError (snd (fst (f (store w))))
      \<and> store (snd r) = snd (f (store w))
      \<and> calls (snd r) = calls w @ [c])"

text \<open>The same for a method that can panic: it has returned, and delegated.\<close>

definition returned_err ::
  "db_call \<Rightarrow> ('s \<Rightarrow> 'e option \<times> 's) \<Rightarrow> 's world
     \<Rightarrow> (panic + 'e error option) \<times> 's world \<Rightarrow> bool" where
  "returned_err c f w r =
     (case fst r of Inl p \<Rightarrow> False | Inr e \<Rightarrow> delegated_err c f w (e, snd r))"

definition returned_val ::
  "db_call \<Rightarrow> ('s \<Rightarrow> ('a \<times> 'e option) \<times> 's) \<Rightarrow> 's world
     \<Rightarrow> (panic + 'a \<times> 'e error option) \<times> 's world \<Rightarrow> bool" where
  "returned_val c f w r =
     (case fst r of Inl p \<Rightarrow> False | Inr v \<Rightarrow> delegated_val c f w (v, snd r))"

section \<open>A storage in memory\<close>

text \<open>
  A small implementation of the storage contract, lists of entities looked up by their
  fields, on which the Operator is run on concrete inputs.
\<close>

datatype MemError = NotFound

record Mem =
  mem_users :: "User list"
  mem_devices :: "Device list"
  mem_streams :: "Stream list"
  mem_carriers :: "PhoneCarrier list"

definition mem_lookup :: "('a \<Rightarrow> bool) \<Rightarrow> 'a list \<Rightarrow> 'a option \<times> MemError option" where
  "mem_lookup P xs = (case find P xs of None \<Rightarrow> (None, Some NotFound) | Some x \<Rightarrow> (Some x, None))"

definition mem_remove :: "('a \<Rightarrow> bool) \<Rightarrow> 'a list \<Rightarrow> MemError option \<times> 'a list" where
  "mem_remove P xs = (if list_ex P xs then (None, filter (\<lambda>x. \<not> P x) xs) else (Some NotFound, xs))"

definition mem_replace :: "('a \<Rightarrow> bool) \<Rightarrow> 'a \<Rightarrow> 'a list \<Rightarrow> MemError option \<times> 'a list" where
  "mem_replace P y xs =
     (if list_ex P xs then (None, map (\<lambda>x. if P x then y else x) xs) else (Some NotFound, xs))"

definition MemDatabase :: "(Mem, MemError) Database" where
  "MemDatabase =
     \<lparr> db_CreateUser = (\<lambda>username email password m.
         (None, m\<lparr> mem_users := mem_users m @
            [\<lparr> User.UserId = int (length (mem_users m)) + 1, Name = username, Email = email \<rparr>] \<rparr>)),
       db_ReadUserByName = (\<lambda>username m.
         (mem_lookup (\<lambda>u. User.Name u = username) (mem_users m), m)),
       db_ReadUserById = (\<lambda>i m. (mem_lookup (\<lambda>u. User.UserId u = i) (mem_users m), m)),
       db_ReadUserByEmail = (\<lambda>email m. (mem_lookup (\<lambda>u. Email u = email) (mem_users m), m)),
       db_ReadAllUsers = (\<lambda>m. ((mem_users m, None), m)),
       db_UpdateUser = (\<lambda>user m.
         (case user of
            None \<Rightarrow> (Some NotFound, m)
          | Some u \<Rightarrow>
              (case mem_replace (\<lambda>x. User.UserId x = User.UserId u) u (mem_users m) of
                 (e, us') \<Rightarrow> (e, m\<lparr> mem_users := us' \<rparr>)))),
       db_DeleteUser = (\<lambda>i m.
         (case mem_remove (\<lambda>x. User.UserId x = i) (mem_users m) of
            (e, us') \<Rightarrow> (e, m\<lparr> mem_users := us' \<rparr>))),
       db_CreatePhoneCarrier = (\<lambda>name emailDomain m.
         (None, m\<lparr> mem_carriers := mem_carriers m @
            [\<lparr> Id = int (length (mem_carriers m)) + 1, Name = name,
               EmailDomain = emailDomain \<rparr>] \<rparr>)),
       db_ReadPhoneCarrierById = (\<lambda>i m. (mem_lookup (\<lambda>c. Id c = i) (mem_carriers m), m)),
       db_ReadAllPhoneCarriers = (\<lambda>m. ((mem_carriers m, None), m)),
       db_UpdatePhoneCarrier = (\<lambda>carrier m.
         (case carrier of
            None \<Rightarrow> (Some NotFound, m)
          | Some c \<Rightarrow>
              (case mem_replace (\<lambda>x. Id x = Id c) c (mem_carriers m) of
                 (e, cs') \<Rightarrow> (e, m\<lparr> mem_carriers := cs' \<rparr>)))),
       db_DeletePhoneCarrier = (\<lambda>i m.
         (case mem_remove (\<lambda>x. Id x = i) (mem_carriers m) of
            (e, cs') \<Rightarrow> (e, m\<lparr> mem_carriers := cs' \<rparr>))),
       db_CreateDevice = (\<lambda>name ownerId m.
         (None, m\<lparr> mem_devices := mem_devices m @
            [\<lparr> Device.DeviceId = int (length (mem_devices m)) + 1, Name = name,
               ApiKey = name, UserId = ownerId \<rparr>] \<rparr>)),
       db_ReadDevicesForUserId = (\<lambda>i m.
         ((filter (\<lambda>d. Device.UserId d = i) (mem_devices m), None), m)),
       db_ReadDeviceByApiKey = (\<lambda>key m. (mem_lookup (\<lambda>d. ApiKey d = key) (mem_devices m), m)),
       db_ReadDeviceForUserByName = (\<lambda>i name m.
         (mem_lookup (\<lambda>d. Device.UserId d = i \<and> Device.Name d = name) (mem_devices m), m)),
       db_UpdateDevice = (\<lambda>update m.
         (case update of
            None \<Rightarrow> (Some NotFound, m)
          | Some d \<Rightarrow>
              (case mem_replace (\<lambda>x. Device.DeviceId x = Device.DeviceId d) d (mem_devices m) of
                 (e, ds') \<Rightarrow> (e, m\<lparr> mem_devices := ds' \<rparr>)))),
       db_DeleteDevice = (\<lambda>i m.
         (case mem_remove (\<lambda>x. Device.DeviceId x = i) (mem_devices m) of
            (e, ds') \<Rightarrow> (e, m\<lparr> mem_devices := ds' \<rparr>))),
       db_CreateStream = (\<lambda>name type ownerId m.
         (None, m\<lparr> mem_streams := mem_streams m @
            [\<lparr> StreamId = int (length (mem_streams m)) + 1, Name = name, Type = type,
               DeviceId = ownerId \<rparr>] \<rparr>)),
       db_ReadStreamsByDevice = (\<lambda>i m.
         ((filter (\<lambda>s. Stream.DeviceId s = i) (mem_streams m), None), m)),
       db_ReadStreamByDeviceIdAndName = (\<lambda>i name m.
         (mem_lookup (\<lambda>s. Stream.DeviceId s = i \<and> Stream.Name s = name) (mem_streams m), m)),
       db_UpdateStream = (\<lambda>stream m.
         (case stream of
            None \<Rightarrow> (Some NotFound, m)
          | Some s \<Rightarrow>
              (case mem_replace (\<lambda>x. StreamId x = StreamId s) s (mem_streams m) of
                 (e, ss') \<Rightarrow> (e, m\<lparr> mem_streams := ss' \<rparr>)))),
       db_DeleteStream = (\<lambda>i m.
         (case mem_remove (\<lambda>x. StreamId x = i) (mem_streams m) of
            (e, ss') \<Rightarrow> (e, m\<lparr> mem_streams := ss' \<rparr>))) \<rparr>"

text \<open>
  Two users; alice owns the devices phone and laptop, bob owns tablet; phone has the
  stream clicks.
\<close>

definition alice :: User where
  "alice = \<lparr> User.UserId = 1, Name = ''alice'', Email = ''alice@example.com'' \<rparr>"

definition bob :: User where
  "bob = \<lparr> User.UserId = 2, Name = ''bob'', Email = ''bob@example.com'' \<rparr>"

definition phone :: Device where
  "phone = \<lparr> Device.DeviceId = 1, Name = ''phone'', ApiKey = ''key-phone'', UserId = 1 \<rparr>"

definition laptop :: Device where
  "laptop = \<lparr> Device.DeviceId = 2, Name = ''laptop'', ApiKey = ''key-laptop'', UserId = 1 \<rparr>"

definition tablet :: Device where
  "tablet = \<lparr> Device.DeviceId = 3, Name = ''tablet'', ApiKey = ''key-tablet'', UserId = 2 \<rparr>"

definition clicks :: Stream where
  "clicks = \<lparr> StreamId = 1, Name = ''clicks'', Type = ''float'', DeviceId = 1 \<rparr>"

definition carrier0 :: PhoneCarrier where
  "carrier0 = \<lparr> Id = 1, Name = ''carrier'', EmailDomain = ''sms.example.com'' \<rparr>"

definition mem0 :: Mem where
  "mem0 = \<lparr> mem_users = [alice, bob], mem_devices = [phone, laptop, tablet],
            mem_streams = [clicks], mem_carriers = [carrier0] \<rparr>"

definition world0 :: "Mem world" where
  "world0 = \<lparr> store = mem0, calls = [] \<rparr>"

text \<open>
  Grants in which every Device has the baseline level \<open>lvl\<close>, the USER tier toward its own
  owner and the FAMILY tier toward its siblings.
\<close>

definition flatGrants :: "PermissionLevel \<Rightarrow> Grants" where
  "flatGrants lvl = \<lparr> baseline = (\<lambda>d. lvl), ownerTier = (\<lambda>d. USER), familyTier = (\<lambda>d. FAMILY) \<rparr>"

text \<open>
  The engine in which every Device is at baseline NONE, the Operator of the Device tablet,
  and the administrator of the storage in memory.
\<close>

definition lowEngine :: RelationEngine where
  "lowEngine = SpecEngine (flatGrants NONE)"

definition admin0 :: "(Mem, MemError) Operator" where
  "admin0 = GetAdminOperator MemDatabase"

definition actingAs :: "Device \<Rightarrow> (Mem, MemError) Operator" where
  "actingAs d = \<lparr> db = MemDatabase, dev = Some d \<rparr>"

definition asTablet :: "(Mem, MemError) Operator" where
  "asTablet = actingAs tablet"

section \<open>Basic facts\<close>

lemmas fixture_defs =
  SpecEngine_def flatGrants_def spec_RelationToStream_def Gte_def actingAs_def
  GetAdminOperator_def MemDatabase_def mem_lookup_def mem_remove_def mem_replace_def
  world0_def mem0_def alice_def bob_def phone_def laptop_def tablet_def clicks_def
  carrier0_def

lemmas resolve_defs =
  GetDevice_def GetDatabase_def call_err_def call_val_def
  ResolvePath_def ResolvePath_user_def ResolvePath_device_def ResolvePath_stream_def
  ReadUserById_def

lemmas method_defs =
  CreateUser_def ReadUser_def ReadUserById_def ReadUserByEmail_def ReadAllUsers_def
  UpdateUser_def DeleteUser_def CreatePhoneCarrier_def ReadPhoneCarrierById_def
  ReadAllPhoneCarriers_def UpdatePhoneCarrier_def DeletePhoneCarrier_def CreateDevice_def
  ReadDevicesForUser_def ReadDeviceByApiKey_def UpdateDevice_def DeleteDevice_def
  CreateStream_def ReadStreamsByDevice_def UpdateStream_def DeleteStream_def

subsection \<open>The scale of levels is a total order\<close>

lemma Gte_ADMIN: "Gte ADMIN r"
  by (cases r) (simp_all add: Gte_def)

lemma Gte_refl: "Gte a a"
  by (simp add: Gte_def)

lemma Gte_trans: "Gte a b \<Longrightarrow> Gte b c \<Longrightarrow> Gte a c"
  by (simp add: Gte_def)

lemma Gte_total: "Gte a b \<or> Gte b a"
  by (auto simp: Gte_def)

lemma rank_inject: "rank a = rank b \<Longrightarrow> a = b"
  by (cases a; cases b) simp_all

lemma Gte_antisym: "Gte a b \<Longrightarrow> Gte b a \<Longrightarrow> a = b"
  by (simp add: Gte_def rank_inject)

subsection \<open>The administrator in the relation engine of the spec\<close>

lemma admin_level:
  "GeneralPermissions (SpecEngine g) (dev (GetAdminOperator database)) = ADMIN"
  "RelationToUser (SpecEngine g) (dev (GetAdminOperator database)) uptr = ADMIN"
  "RelationToDevice (SpecEngine g) (dev (GetAdminOperator database)) dptr = ADMIN"
  "RelationToStream (SpecEngine g) (dev (GetAdminOperator database)) sptr dptr = ADMIN"
  by (simp_all add: SpecEngine_def spec_RelationToStream_def GetAdminOperator_def)

lemma self_relation: "Gte (spec_RelationToDevice g (Some d) (Some d)) DEVICE"
  by (simp add: Gte_def)

lemma family_relation:
  "grants_ok g \<Longrightarrow> Device.UserId t = Device.UserId d \<Longrightarrow>
   Gte (spec_RelationToDevice g (Some d) (Some t)) FAMILY"
  by (auto simp: grants_ok_def Gte_def)

subsection \<open>One storage call\<close>

lemma call_err_delegated: "delegated_err c f w (call_err c f w)"
  by (simp add: delegated_err_def call_err_def split: prod.splits)

lemma call_val_delegated: "delegated_val c f w (call_val c f w)"
  by (simp add: delegated_val_def call_val_def split: prod.splits)

lemma call_err_returned:
  "returned_err c f w (case call_err c f w of (e, w') \<Rightarrow> (Inr e, w'))"
  by (simp add: returned_err_def delegated_err_def call_err_def split: prod.splits)

lemma call_val_returned:
  "returned_val c f w (case call_val c f w of (r, w') \<Rightarrow> (Inr r, w'))"
  by (simp add: returned_val_def delegated_val_def call_val_def split: prod.splits)

subsection \<open>\<open>Split\<close> is \<open>strings.Split\<close> with the separator "/"\<close>

lemma Split_not_Nil: "Split s \<noteq> []"
  by (induction s) (auto split: list.splits)

lemma length_Split: "length (Split s) = Suc (count_list s (CHR ''/''))"
proof (induction s)
  case Nil
  show ?case by simp
next
  case (Cons c cs)
  then show ?case using Split_not_Nil [of cs]
    by (cases "Split cs") auto
qed

lemma Split_no_separator: "CHR ''/'' \<notin> set s \<Longrightarrow> Split s = [s]"
  by (induction s) auto

lemma Split_segment: "CHR ''/'' \<notin> set u \<Longrightarrow> Split (u @ CHR ''/'' # rest) = u # Split rest"
  using Split_not_Nil [of rest]
  by (induction u) (auto split: list.splits)

lemma Split_three:
  "CHR ''/'' \<notin> set u \<Longrightarrow> CHR ''/'' \<notin> set d \<Longrightarrow> CHR ''/'' \<notin> set s \<Longrightarrow>
   Split (u @ CHR ''/'' # d @ CHR ''/'' # s) = [u, d, s]"
  by (simp add: Split_segment Split_no_separator)

section \<open>Argument validation\<close>

text \<open>
  Six methods test their entity argument for nil before anything else and return
  \<open>InvalidParameterError\<close> in the world they were called in.
\<close>

lemma nil_argument_is_rejected_first:
  "UpdateUser us opr None w = (Some InvalidParameterError, w)
   \<and> UpdatePhoneCarrier us opr None w = (Some InvalidParameterError, w)
   \<and> CreateDevice us opr name None w = (Some InvalidParameterError, w)
   \<and> UpdateDevice us opr None w = (Some InvalidParameterError, w)
   \<and> DeleteDevice us opr None w = (Some InvalidParameterError, w)
   \<and> CreateStream us opr name type None w = (Some InvalidParameterError, w)"
  by (simp add: method_defs)

text \<open>
  Claim C4 says that every method with a required entity argument, \<open>UpdateStream\<close> and
  \<open>DeleteStream\<close> among them, answers a nil argument with the invalid-parameter error
  before any permission check or storage interaction. The two stream methods have no such
  test. Called with a nil stream they never return \<open>InvalidParameterError\<close>: for the
  administrator \<open>UpdateStream\<close> hands the nil pointer to the storage and \<open>DeleteStream\<close>
  panics on \<open>s.StreamId\<close>; for a caller below the USER level both return
  \<open>PERMISSION_ERROR\<close>, the outcome of the permission check.
\<close>

theorem nil_stream_is_not_rejected:
  "fst (UpdateStream us opr dptr None w) \<noteq> Some InvalidParameterError
   \<and> fst (DeleteStream us opr dptr None w) \<noteq> Inr (Some InvalidParameterError)
   \<and> UpdateStream (SpecEngine g) (GetAdminOperator database) dptr None w
       = call_err (CallUpdateStream None) (db_UpdateStream database None) w
   \<and> DeleteStream (SpecEngine g) (GetAdminOperator database) dptr None w
       = (Inl NilPointerDereference, w)
   \<and> UpdateStream (SpecEngine (flatGrants NONE)) (actingAs tablet) (Some phone) None world0
       = (Some PERMISSION_ERROR, world0)
   \<and> DeleteStream (SpecEngine (flatGrants NONE)) (actingAs tablet) (Some phone) None world0
       = (Inr (Some PERMISSION_ERROR), world0)"
  by (simp add: UpdateStream_def DeleteStream_def SpecEngine_def spec_RelationToStream_def
        GetAdminOperator_def Gte_ADMIN call_err_def flatGrants_def actingAs_def Gte_def
        tablet_def phone_def
      split: prod.splits)

section \<open>Denied calls\<close>

lemma ResolvePath_denied:
  assumes "\<not> Gte (GeneralPermissions us (dev opr)) ROOT"
    and "dev opr \<noteq> None"
    and "length (Split path) = 3"
  shows "ResolvePath us opr path w = (Inr (None, None, None, Some PERMISSION_ERROR), w)"
  using assms
  by (auto simp: ResolvePath_def ResolvePath_user_def GetDevice_def ReadUserById_def)

text \<open>
  Claim C5. Whenever the level a method computes for the caller and the target is below the
  minimum the method requires, the method returns \<open>PERMISSION_ERROR\<close> in the world it was
  called in: the storage state is the same and no storage call has been made. The
  conjuncts are grouped by the check; the targets of the methods that validate their
  argument are non-nil, those of the other methods are any pointer. The last conjunct is
  \<open>ResolvePath\<close>, whose user phase goes through \<open>ReadUserById\<close>.
\<close>

theorem denied_call_makes_no_storage_call:
  "(\<not> Gte (GeneralPermissions us (dev opr)) ROOT \<longrightarrow>
      CreateUser us opr username email password w = (Some PERMISSION_ERROR, w)
    \<and> ReadUser us opr username w = ((None, Some PERMISSION_ERROR), w)
    \<and> ReadUserById us opr id' w = ((None, Some PERMISSION_ERROR), w)
    \<and> ReadUserByEmail us opr email w = ((None, Some PERMISSION_ERROR), w)
    \<and> ReadAllUsers us opr w = (([], Some PERMISSION_ERROR), w)
    \<and> DeleteUser us opr id' w = (Some PERMISSION_ERROR, w)
    \<and> CreatePhoneCarrier us opr name emailDomain w = (Some PERMISSION_ERROR, w)
    \<and> UpdatePhoneCarrier us opr (Some carrier) w = (Some PERMISSION_ERROR, w)
    \<and> DeletePhoneCarrier us opr id' w = (Some PERMISSION_ERROR, w)
    \<and> ReadDeviceByApiKey us opr key w = ((None, Some PERMISSION_ERROR), w))
   \<and> (\<not> Gte (GeneralPermissions us (dev opr)) ENABLED \<longrightarrow>
      ReadPhoneCarrierById us opr id' w = ((None, Some PERMISSION_ERROR), w)
    \<and> ReadAllPhoneCarriers us opr w = (([], Some PERMISSION_ERROR), w))
   \<and> (\<not> Gte (RelationToUser us (dev opr) (Some u)) ROOT \<longrightarrow>
      UpdateUser us opr (Some u) w = (Some PERMISSION_ERROR, w))
   \<and> (\<not> Gte (RelationToUser us (dev opr) (Some u)) USER \<longrightarrow>
      CreateDevice us opr name (Some u) w = (Some PERMISSION_ERROR, w))
   \<and> (\<not> Gte (RelationToUser us (dev opr) uptr) FAMILY \<longrightarrow>
      ReadDevicesForUser us opr uptr w = (Inr ([], Some PERMISSION_ERROR), w))
   \<and> (\<not> Gte (RelationToDevice us (dev opr) (Some t)) DEVICE \<longrightarrow>
      UpdateDevice us opr (Some t) w = (Some PERMISSION_ERROR, w))
   \<and> (\<not> Gte (RelationToDevice us (dev opr) (Some t)) USER \<longrightarrow>
      DeleteDevice us opr (Some t) w = (Some PERMISSION_ERROR, w)
    \<and> CreateStream us opr name type (Some t) w = (Some PERMISSION_ERROR, w))
   \<and> (\<not> Gte (RelationToDevice us (dev opr) dptr) FAMILY \<longrightarrow>
      ReadStreamsByDevice us opr dptr w = (Inr ([], Some PERMISSION_ERROR), w))
   \<and> (\<not> Gte (RelationToStream us (dev opr) sptr dptr) USER \<longrightarrow>
      UpdateStream us opr dptr sptr w = (Some PERMISSION_ERROR, w)
    \<and> DeleteStream us opr dptr sptr w = (Inr (Some PERMISSION_ERROR), w))
   \<and> (\<not> Gte (GeneralPermissions us (dev opr)) ROOT \<longrightarrow> dev opr \<noteq> None \<longrightarrow>
      length (Split path) = 3 \<longrightarrow>
      ResolvePath us opr path w = (Inr (None, None, None, Some PERMISSION_ERROR), w))"
  by (simp add: method_defs ResolvePath_denied)

theorem denied_call_makes_no_storage_call_witness:
  "\<not> Gte (GeneralPermissions lowEngine (dev asTablet)) ROOT
   \<and> CreateUser lowEngine asTablet ''carol'' ''carol@example.com'' ''secret'' world0
       = (Some PERMISSION_ERROR, world0)
   \<and> ReadUser lowEngine asTablet ''carol'' world0 = ((None, Some PERMISSION_ERROR), world0)
   \<and> ReadUserById lowEngine asTablet 1 world0 = ((None, Some PERMISSION_ERROR), world0)
   \<and> ReadUserByEmail lowEngine asTablet ''carol@example.com'' world0
       = ((None, Some PERMISSION_ERROR), world0)
   \<and> ReadAllUsers lowEngine asTablet world0 = (([], Some PERMISSION_ERROR), world0)
   \<and> DeleteUser lowEngine asTablet 1 world0 = (Some PERMISSION_ERROR, world0)
   \<and> CreatePhoneCarrier lowEngine asTablet ''x'' ''x.example.com'' world0 = (Some PERMISSION_ERROR, world0)
   \<and> UpdatePhoneCarrier lowEngine asTablet (Some carrier0) world0 = (Some PERMISSION_ERROR, world0)
   \<and> DeletePhoneCarrier lowEngine asTablet 1 world0 = (Some PERMISSION_ERROR, world0)
   \<and> ReadDeviceByApiKey lowEngine asTablet ''key-phone'' world0 = ((None, Some PERMISSION_ERROR), world0)
   \<and> ReadPhoneCarrierById lowEngine asTablet 1 world0 = ((None, Some PERMISSION_ERROR), world0)
   \<and> ReadAllPhoneCarriers lowEngine asTablet world0 = (([], Some PERMISSION_ERROR), world0)
   \<and> UpdateUser lowEngine asTablet (Some alice) world0 = (Some PERMISSION_ERROR, world0)
   \<and> CreateDevice lowEngine asTablet ''x'' (Some alice) world0 = (Some PERMISSION_ERROR, world0)
   \<and> ReadDevicesForUser lowEngine asTablet (Some alice) world0 = (Inr ([], Some PERMISSION_ERROR), world0)
   \<and> UpdateDevice lowEngine asTablet (Some phone) world0 = (Some PERMISSION_ERROR, world0)
   \<and> DeleteDevice lowEngine asTablet (Some phone) world0 = (Some PERMISSION_ERROR, world0)
   \<and> CreateStream lowEngine asTablet ''x'' ''float'' (Some phone) world0 = (Some PERMISSION_ERROR, world0)
   \<and> ReadStreamsByDevice lowEngine asTablet (Some phone) world0
       = (Inr ([], Some PERMISSION_ERROR), world0)
   \<and> UpdateStream lowEngine asTablet (Some phone) (Some clicks) world0 = (Some PERMISSION_ERROR, world0)
   \<and> DeleteStream lowEngine asTablet (Some phone) (Some clicks) world0
       = (Inr (Some PERMISSION_ERROR), world0)
   \<and> ResolvePath lowEngine asTablet ''//clicks'' world0
       = (Inr (None, None, None, Some PERMISSION_ERROR), world0)"
proof -
  have g: "\<not> Gte (GeneralPermissions lowEngine (dev asTablet)) ROOT"
    "\<not> Gte (GeneralPermissions lowEngine (dev asTablet)) ENABLED"
    "\<not> Gte (RelationToUser lowEngine (dev asTablet) (Some alice)) ROOT"
    "\<not> Gte (RelationToUser lowEngine (dev asTablet) (Some alice)) USER"
    "\<not> Gte (RelationToUser lowEngine (dev asTablet) (Some alice)) FAMILY"
    "\<not> Gte (RelationToDevice lowEngine (dev asTablet) (Some phone)) DEVICE"
    "\<not> Gte (RelationToDevice lowEngine (dev asTablet) (Some phone)) USER"
    "\<not> Gte (RelationToDevice lowEngine (dev asTablet) (Some phone)) FAMILY"
    "\<not> Gte (RelationToStream lowEngine (dev asTablet) (Some clicks) (Some phone)) USER"
    "dev asTablet \<noteq> None"
    "length (Split ''//clicks'') = 3"
    by (simp_all add: lowEngine_def asTablet_def fixture_defs)
  from g denied_call_makes_no_storage_call
      [where us = lowEngine and opr = asTablet and w = world0
         and u = alice and t = phone and uptr = "Some alice" and dptr = "Some phone"
         and sptr = "Some clicks" and carrier = carrier0
         and path = "''//clicks''"]
  show ?thesis by simp
qed

section \<open>Permitted calls\<close>

text \<open>
  Claim C8. Whenever the permission check of a method passes on valid arguments, the
  method makes exactly one storage call, the one of its name with the arguments it was
  given (the identifier of the entity where the storage method takes one), and returns what
  that call returned, error included. The witness has the administrator delete the user
  with identifier 7, which the storage does not have: the storage's own not-found error
  comes back.
\<close>

theorem permitted_call_is_one_storage_call:
  "(Gte (GeneralPermissions us (dev opr)) ROOT \<longrightarrow>
      delegated_err (CallCreateUser username email password)
        (db_CreateUser (db opr) username email password) w
        (CreateUser us opr username email password w)
    \<and> delegated_val (CallReadUserByName username) (db_ReadUserByName (db opr) username) w
        (ReadUser us opr username w)
    \<and> delegated_val (CallReadUserById id') (db_ReadUserById (db opr) id') w
        (ReadUserById us opr id' w)
    \<and> delegated_val (CallReadUserByEmail email) (db_ReadUserByEmail (db opr) email) w
        (ReadUserByEmail us opr email w)
    \<and> delegated_val CallReadAllUsers (db_ReadAllUsers (db opr)) w (ReadAllUsers us opr w)
    \<and> delegated_err (CallDeleteUser id') (db_DeleteUser (db opr) id') w
        (DeleteUser us opr id' w)
    \<and> delegated_err (CallCreatePhoneCarrier name emailDomain)
        (db_CreatePhoneCarrier (db opr) name emailDomain) w
        (CreatePhoneCarrier us opr name emailDomain w)
    \<and> delegated_err (CallUpdatePhoneCarrier (Some carrier))
        (db_UpdatePhoneCarrier (db opr) (Some carrier)) w
        (UpdatePhoneCarrier us opr (Some carrier) w)
    \<and> delegated_err (CallDeletePhoneCarrier id') (db_DeletePhoneCarrier (db opr) id') w
        (DeletePhoneCarrier us opr id' w)
    \<and> delegated_val (CallReadDeviceByApiKey key) (db_ReadDeviceByApiKey (db opr) key) w
        (ReadDeviceByApiKey us opr key w))
   \<and> (Gte (GeneralPermissions us (dev opr)) ENABLED \<longrightarrow>
      delegated_val (CallReadPhoneCarrierById id') (db_ReadPhoneCarrierById (db opr) id') w
        (ReadPhoneCarrierById us opr id' w)
    \<and> delegated_val CallReadAllPhoneCarriers (db_ReadAllPhoneCarriers (db opr)) w
        (ReadAllPhoneCarriers us opr w))
   \<and> (Gte (RelationToUser us (dev opr) (Some u)) ROOT \<longrightarrow>
      delegated_err (CallUpdateUser (Some u)) (db_UpdateUser (db opr) (Some u)) w
        (UpdateUser us opr (Some u) w))
   \<and> (Gte (RelationToUser us (dev opr) (Some u)) USER \<longrightarrow>
      delegated_err (CallCreateDevice name (User.UserId u))
        (db_CreateDevice (db opr) name (User.UserId u)) w
        (CreateDevice us opr name (Some u) w))
   \<and> (Gte (RelationToUser us (dev opr) (Some u)) FAMILY \<longrightarrow>
      returned_val (CallReadDevicesForUserId (User.UserId u))
        (db_ReadDevicesForUserId (db opr) (User.UserId u)) w
        (ReadDevicesForUser us opr (Some u) w))
   \<and> (Gte (RelationToDevice us (dev opr) (Some t)) DEVICE \<longrightarrow>
      delegated_err (CallUpdateDevice (Some t)) (db_UpdateDevice (db opr) (Some t)) w
        (UpdateDevice us opr (Some t) w))
   \<and> (Gte (RelationToDevice us (dev opr) (Some t)) USER \<longrightarrow>
      delegated_err (CallDeleteDevice (Device.DeviceId t))
        (db_DeleteDevice (db opr) (Device.DeviceId t)) w
        (DeleteDevice us opr (Some t) w)
    \<and> delegated_err (CallCreateStream name type (Device.DeviceId t))
        (db_CreateStream (db opr) name type (Device.DeviceId t)) w
        (CreateStream us opr name type (Some t) w))
   \<and> (Gte (RelationToDevice us (dev opr) (Some t)) FAMILY \<longrightarrow>
      returned_val (CallReadStreamsByDevice (Device.DeviceId t))
        (db_ReadStreamsByDevice (db opr) (Device.DeviceId t)) w
        (ReadStreamsByDevice us opr (Some t) w))
   \<and> (Gte (RelationToStream us (dev opr) sptr dptr) USER \<longrightarrow>
      delegated_err (CallUpdateStream sptr) (db_UpdateStream (db opr) sptr) w
        (UpdateStream us opr dptr sptr w))
   \<and> (Gte (RelationToStream us (dev opr) (Some s) dptr) USER \<longrightarrow>
      returned_err (CallDeleteStream (StreamId s)) (db_DeleteStream (db opr) (StreamId s)) w
        (DeleteStream us opr dptr (Some s) w))"
  by (simp add: method_defs GetDatabase_def call_err_delegated call_val_delegated
        call_err_returned call_val_returned)

theorem permitted_call_is_one_storage_call_witness:
  "Gte (GeneralPermissions lowEngine (dev admin0)) ROOT
   \<and> fst (DeleteUser lowEngine admin0 7 world0) = Some (StorageError NotFound)
   \<and> store (snd (DeleteUser lowEngine admin0 7 world0)) = mem0
   \<and> calls (snd (DeleteUser lowEngine admin0 7 world0)) = [CallDeleteUser 7]
   \<and> delegated_err (CallCreateUser ''carol'' ''carol@example.com'' ''secret'')
        (db_CreateUser (db admin0) ''carol'' ''carol@example.com'' ''secret'') world0
        (CreateUser lowEngine admin0 ''carol'' ''carol@example.com'' ''secret'' world0)
   \<and> delegated_val (CallReadUserByName ''alice'') (db_ReadUserByName (db admin0) ''alice'') world0
        (ReadUser lowEngine admin0 ''alice'' world0)
   \<and> delegated_val (CallReadUserById 7) (db_ReadUserById (db admin0) 7) world0
        (ReadUserById lowEngine admin0 7 world0)
   \<and> delegated_val (CallReadUserByEmail ''bob@example.com'')
        (db_ReadUserByEmail (db admin0) ''bob@example.com'') world0
        (ReadUserByEmail lowEngine admin0 ''bob@example.com'' world0)
   \<and> delegated_val CallReadAllUsers (db_ReadAllUsers (db admin0)) world0 (ReadAllUsers lowEngine admin0 world0)
   \<and> delegated_err (CallCreatePhoneCarrier ''x'' ''x.example.com'')
        (db_CreatePhoneCarrier (db admin0) ''x'' ''x.example.com'') world0
        (CreatePhoneCarrier lowEngine admin0 ''x'' ''x.example.com'' world0)
   \<and> delegated_err (CallUpdatePhoneCarrier (Some carrier0))
        (db_UpdatePhoneCarrier (db admin0) (Some carrier0)) world0
        (UpdatePhoneCarrier lowEngine admin0 (Some carrier0) world0)
   \<and> delegated_err (CallDeletePhoneCarrier 7) (db_DeletePhoneCarrier (db admin0) 7) world0
        (DeletePhoneCarrier lowEngine admin0 7 world0)
   \<and> delegated_val (CallReadDeviceByApiKey ''key-phone'')
        (db_ReadDeviceByApiKey (db admin0) ''key-phone'') world0
        (ReadDeviceByApiKey lowEngine admin0 ''key-phone'' world0)
   \<and> delegated_val (CallReadPhoneCarrierById 7) (db_ReadPhoneCarrierById (db admin0) 7) world0
        (ReadPhoneCarrierById lowEngine admin0 7 world0)
   \<and> delegated_val CallReadAllPhoneCarriers (db_ReadAllPhoneCarriers (db admin0)) world0
        (ReadAllPhoneCarriers lowEngine admin0 world0)
   \<and> delegated_err (CallUpdateUser (Some alice)) (db_UpdateUser (db admin0) (Some alice)) world0
        (UpdateUser lowEngine admin0 (Some alice) world0)
   \<and> delegated_err (CallCreateDevice ''x'' (User.UserId alice))
        (db_CreateDevice (db admin0) ''x'' (User.UserId alice)) world0
        (CreateDevice lowEngine admin0 ''x'' (Some alice) world0)
   \<and> returned_val (CallReadDevicesForUserId (User.UserId alice))
        (db_ReadDevicesForUserId (db admin0) (User.UserId alice)) world0
        (ReadDevicesForUser lowEngine admin0 (Some alice) world0)
   \<and> delegated_err (CallUpdateDevice (Some phone)) (db_UpdateDevice (db admin0) (Some phone)) world0
        (UpdateDevice lowEngine admin0 (Some phone) world0)
   \<and> delegated_err (CallDeleteDevice (Device.DeviceId phone))
        (db_DeleteDevice (db admin0) (Device.DeviceId phone)) world0
        (DeleteDevice lowEngine admin0 (Some phone) world0)
   \<and> delegated_err (CallCreateStream ''x'' ''float'' (Device.DeviceId phone))
        (db_CreateStream (db admin0) ''x'' ''float'' (Device.DeviceId phone)) world0
        (CreateStream lowEngine admin0 ''x'' ''float'' (Some phone) world0)
   \<and> returned_val (CallReadStreamsByDevice (Device.DeviceId phone))
        (db_ReadStreamsByDevice (db admin0) (Device.DeviceId phone)) world0
        (ReadStreamsByDevice lowEngine admin0 (Some phone) world0)
   \<and> delegated_err (CallUpdateStream (Some clicks)) (db_UpdateStream (db admin0) (Some clicks))
        world0 (UpdateStream lowEngine admin0 (Some phone) (Some clicks) world0)
   \<and> returned_err (CallDeleteStream (StreamId clicks))
        (db_DeleteStream (db admin0) (StreamId clicks)) world0
        (DeleteStream lowEngine admin0 (Some phone) (Some clicks) world0)"
proof -
  have g: "Gte (GeneralPermissions lowEngine (dev admin0)) lvl"
    "Gte (RelationToUser lowEngine (dev admin0) (Some alice)) lvl"
    "Gte (RelationToDevice lowEngine (dev admin0) (Some phone)) lvl"
    "Gte (RelationToStream lowEngine (dev admin0) (Some clicks) (Some phone)) lvl" for lvl
    by (simp_all add: lowEngine_def admin0_def admin_level Gte_ADMIN)
  note all = permitted_call_is_one_storage_call
      [where us = lowEngine and opr = admin0 and w = world0
         and u = alice and t = phone and dptr = "Some phone" and sptr = "Some clicks"
         and s = clicks and carrier = carrier0 and id' = 7]
  from g all
  have del: "delegated_err (CallDeleteUser 7) (db_DeleteUser (db admin0) 7) world0
               (DeleteUser lowEngine admin0 7 world0)"
    by simp
  have absent: "db_DeleteUser (db admin0) 7 (store world0) = (Some NotFound, mem0)"
    by (simp add: admin0_def fixture_defs)
  have "fst (DeleteUser lowEngine admin0 7 world0) = Some (StorageError NotFound)"
    "store (snd (DeleteUser lowEngine admin0 7 world0)) = mem0"
    "calls (snd (DeleteUser lowEngine admin0 7 world0)) = [CallDeleteUser 7]"
    using del absent by (simp_all add: delegated_err_def world0_def)
  with g all show ?thesis by simp
qed

section \<open>The administrator\<close>

text \<open>
  Claim C3. For the Operator made by \<open>GetAdminOperator\<close>, whose acting Device is nil, and
  the relation engine of the spec: every relation level is at least every required level
  \<open>r\<close>, whatever the target, so every permission check passes; and no method returns
  \<open>PERMISSION_ERROR\<close>, whatever its arguments. (A method that validates its argument may
  return \<open>InvalidParameterError\<close>, one that reads a field of a nil argument panics, and
  \<open>ResolvePath\<close> returns \<open>INVALID_PATH_ERROR\<close> or panics on \<open>o.GetDevice().UserId\<close>; none
  of these is a denial.)
\<close>

theorem administrator_is_never_denied:
  "Gte (GeneralPermissions (SpecEngine g) (dev (GetAdminOperator database))) r
   \<and> Gte (RelationToUser (SpecEngine g) (dev (GetAdminOperator database)) uptr) r
   \<and> Gte (RelationToDevice (SpecEngine g) (dev (GetAdminOperator database)) dptr) r
   \<and> Gte (RelationToStream (SpecEngine g) (dev (GetAdminOperator database)) sptr dptr) r
   \<and> fst (CreateUser (SpecEngine g) (GetAdminOperator database) username email password w)
        \<noteq> Some PERMISSION_ERROR
   \<and> snd (fst (ReadUser (SpecEngine g) (GetAdminOperator database) username w))
        \<noteq> Some PERMISSION_ERROR
   \<and> snd (fst (ReadUserById (SpecEngine g) (GetAdminOperator database) id' w))
        \<noteq> Some PERMISSION_ERROR
   \<and> snd (fst (ReadUserByEmail (SpecEngine g) (GetAdminOperator database) email w))
        \<noteq> Some PERMISSION_ERROR
   \<and> snd (fst (ReadAllUsers (SpecEngine g) (GetAdminOperator database) w))
        \<noteq> Some PERMISSION_ERROR
   \<and> fst (UpdateUser (SpecEngine g) (GetAdminOperator database) uptr w)
        \<noteq> Some PERMISSION_ERROR
   \<and> fst (DeleteUser (SpecEngine g) (GetAdminOperator database) id' w)
        \<noteq> Some PERMISSION_ERROR
   \<and> fst (CreatePhoneCarrier (SpecEngine g) (GetAdminOperator database) name emailDomain w)
        \<noteq> Some PERMISSION_ERROR
   \<and> snd (fst (ReadPhoneCarrierById (SpecEngine g) (GetAdminOperator database) id' w))
        \<noteq> Some PERMISSION_ERROR
   \<and> snd (fst (ReadAllPhoneCarriers (SpecEngine g) (GetAdminOperator database) w))
        \<noteq> Some PERMISSION_ERROR
   \<and> fst (UpdatePhoneCarrier (SpecEngine g) (GetAdminOperator database) cptr w)
        \<noteq> Some PERMISSION_ERROR
   \<and> fst (DeletePhoneCarrier (SpecEngine g) (GetAdminOperator database) id' w)
        \<noteq> Some PERMISSION_ERROR
   \<and> fst (CreateDevice (SpecEngine g) (GetAdminOperator database) name uptr w)
        \<noteq> Some PERMISSION_ERROR
   \<and> (case fst (ReadDevicesForUser (SpecEngine g) (GetAdminOperator database) uptr w) of
         Inl p \<Rightarrow> True | Inr v \<Rightarrow> snd v \<noteq> Some PERMISSION_ERROR)
   \<and> snd (fst (ReadDeviceByApiKey (SpecEngine g) (GetAdminOperator database) key w))
        \<noteq> Some PERMISSION_ERROR
   \<and> fst (UpdateDevice (SpecEngine g) (GetAdminOperator database) dptr w)
        \<noteq> Some PERMISSION_ERROR
   \<and> fst (DeleteDevice (SpecEngine g) (GetAdminOperator database) dptr w)
        \<noteq> Some PERMISSION_ERROR
   \<and> fst (CreateStream (SpecEngine g) (GetAdminOperator database) name type dptr w)
        \<noteq> Some PERMISSION_ERROR
   \<and> (case fst (ReadStreamsByDevice (SpecEngine g) (GetAdminOperator database) dptr w) of
         Inl p \<Rightarrow> True | Inr v \<Rightarrow> snd v \<noteq> Some PERMISSION_ERROR)
   \<and> fst (UpdateStream (SpecEngine g) (GetAdminOperator database) dptr sptr w)
        \<noteq> Some PERMISSION_ERROR
   \<and> (case fst (DeleteStream (SpecEngine g) (GetAdminOperator database) dptr sptr w) of
         Inl p \<Rightarrow> True | Inr e \<Rightarrow> e \<noteq> Some PERMISSION_ERROR)
   \<and> (case fst (ResolvePath (SpecEngine g) (GetAdminOperator database) path w) of
         Inl p \<Rightarrow> True | Inr v \<Rightarrow> snd (snd (snd v)) \<noteq> Some PERMISSION_ERROR)"
proof -
  let ?E = "SpecEngine g" and ?A = "GetAdminOperator database"
  have guards: "Gte (GeneralPermissions ?E (dev ?A)) r"
    "Gte (RelationToUser ?E (dev ?A) uptr) r"
    "Gte (RelationToDevice ?E (dev ?A) dptr) r"
    "Gte (RelationToStream ?E (dev ?A) sptr dptr) r" for r uptr dptr sptr
    by (simp_all add: admin_level Gte_ADMIN)
  have path: "case fst (ResolvePath ?E ?A path w) of
         Inl p \<Rightarrow> True | Inr v \<Rightarrow> snd (snd (snd v)) \<noteq> Some PERMISSION_ERROR"
    by (simp add: ResolvePath_def ResolvePath_user_def GetDevice_def GetAdminOperator_def
          Let_def)
  show ?thesis
    unfolding method_defs
    by (simp add: guards path call_err_def call_val_def split: prod.splits option.splits)
qed

section \<open>The gate of UpdateUser\<close>

text \<open>
  What the source alone decides: \<open>UpdateUser\<close> compares the caller's \<open>RelationToUser\<close>
  level toward the target with ROOT, for every relation engine.
\<close>

lemma UpdateUser_checks_relation:
  "(fst (UpdateUser us opr (Some u) w) \<noteq> Some PERMISSION_ERROR)
     = Gte (RelationToUser us (dev opr) (Some u)) ROOT"
  by (simp add: UpdateUser_def call_err_def split: prod.splits)

text \<open>
  In the relation engine of the spec, with the two tiers left open, that level is the
  Device's tier toward its owner for the target that owns it, and its baseline otherwise.
\<close>

lemma UpdateUser_gate_in_grants:
  "(fst (UpdateUser (SpecEngine g) \<lparr> db = database, dev = Some d \<rparr> (Some u) w)
      \<noteq> Some PERMISSION_ERROR)
     = Gte (if Device.UserId d = User.UserId u then ownerTier g d else baseline g d) ROOT"
  by (simp add: UpdateUser_checks_relation SpecEngine_def)

text \<open>
  The Device's own maximum self-level is within the bounds of the spec, and reaches ROOT
  exactly when the baseline does: USER is below ROOT.
\<close>

lemma higher_bounds: "Gte (higher a b) a \<and> Gte (higher a b) b"
  by (auto simp: higher_def Gte_def)

lemma selfLevelGrants_ok: "grants_ok (selfLevelGrants base)"
  by (simp add: grants_ok_def selfLevelGrants_def higher_bounds)




text \<open>
  On the storage in memory: the Device phone of alice is denied the update of alice and of
  bob at baseline ENABLED, and makes both updates at baseline ROOT.
\<close>

lemma UpdateUser_gate_examples:
  "UpdateUser (SpecEngine (selfLevelGrants (\<lambda>d. ENABLED))) (actingAs phone) (Some alice) world0
     = (Some PERMISSION_ERROR, world0)
   \<and> UpdateUser (SpecEngine (selfLevelGrants (\<lambda>d. ENABLED))) (actingAs phone) (Some bob) world0
     = (Some PERMISSION_ERROR, world0)
   \<and> UpdateUser (SpecEngine (selfLevelGrants (\<lambda>d. ROOT))) (actingAs phone) (Some alice) world0
     = (None, \<lparr> store = mem0, calls = [CallUpdateUser (Some alice)] \<rparr>)
   \<and> UpdateUser (SpecEngine (selfLevelGrants (\<lambda>d. ROOT))) (actingAs phone) (Some bob) world0
     = (None, \<lparr> store = mem0, calls = [CallUpdateUser (Some bob)] \<rparr>)"
  by (simp add: selfLevelGrants_def higher_def fixture_defs UpdateUser_def GetDatabase_def
        call_err_def)

section \<open>Path format rejection\<close>

text \<open>
  Claim C9. A path that \<open>strings.Split\<close> does not cut into exactly three segments (by
  \<open>length_Split\<close>: a path without exactly two separators) makes \<open>ResolvePath\<close> return
  \<open>INVALID_PATH_ERROR\<close> with the three entities nil, in the world it was called in: no
  storage call has been made.
\<close>

theorem ResolvePath_rejects_malformed_path:
  "length (Split path) \<noteq> 3 \<Longrightarrow>
   ResolvePath us opr path w = (Inr (None, None, None, Some INVALID_PATH_ERROR), w)"
  by (simp add: ResolvePath_def)

theorem ResolvePath_rejects_malformed_path_witness:
  "length (Split ''a/b'') \<noteq> 3
   \<and> ResolvePath (SpecEngine (flatGrants ROOT)) (actingAs phone) ''a/b'' world0
       = (Inr (None, None, None, Some INVALID_PATH_ERROR), world0)
   \<and> length (Split ''a/b/c/d'') \<noteq> 3
   \<and> ResolvePath (SpecEngine (flatGrants ROOT)) (actingAs phone) ''a/b/c/d'' world0
       = (Inr (None, None, None, Some INVALID_PATH_ERROR), world0)"
  using ResolvePath_rejects_malformed_path
          [of "''a/b''" "SpecEngine (flatGrants ROOT)" "actingAs phone" world0]
        ResolvePath_rejects_malformed_path
          [of "''a/b/c/d''" "SpecEngine (flatGrants ROOT)" "actingAs phone" world0]
  by simp

section \<open>The user segment\<close>

text \<open>
  Claim C7. On a path of three segments \<open>ResolvePath\<close> does the same whatever the text of
  the user segment: the result and the world after the call are those of the path with the
  user segment emptied. Whenever it returns for an acting Device \<open>d\<close>, the user it returns
  is the one \<open>ReadUserById\<close> gives for \<open>d\<close>'s own owner id.
\<close>

theorem ResolvePath_ignores_user_segment:
  assumes "Split path = [uname, dname, sname]"
    and "Split path' = [[], dname, sname]"
  shows "ResolvePath us opr path w = ResolvePath us opr path' w
    \<and> (dev opr = Some d \<longrightarrow> (\<forall>r. fst (ResolvePath us opr path w) = Inr r \<longrightarrow>
           fst r = fst (fst (ReadUserById us opr (Device.UserId d) w))))"
  using assms
  by (auto simp: ResolvePath_def ResolvePath_user_def ResolvePath_device_def
        ResolvePath_stream_def GetDevice_def
      split: option.splits prod.splits if_splits)

theorem ResolvePath_ignores_user_segment_witness:
  "Split ''bob//clicks'' = [''bob'', [], ''clicks'']
   \<and> Split ''//clicks'' = [[], [], ''clicks'']
   \<and> ResolvePath (SpecEngine (flatGrants ROOT)) (actingAs phone) ''bob//clicks'' world0
       = ResolvePath (SpecEngine (flatGrants ROOT)) (actingAs phone) ''//clicks'' world0
   \<and> dev (actingAs phone) = Some phone
   \<and> fst (ResolvePath (SpecEngine (flatGrants ROOT)) (actingAs phone) ''bob//clicks'' world0)
       = Inr (Some alice, Some phone, Some clicks, None)
   \<and> Some alice
       = fst (fst (ReadUserById (SpecEngine (flatGrants ROOT)) (actingAs phone)
                     (Device.UserId phone) world0))"
proof -
  have s1: "Split ''bob//clicks'' = [''bob'', [], ''clicks'']" by simp
  have s2: "Split ''//clicks'' = [[], [], ''clicks'']" by simp
  have d: "dev (actingAs phone) = Some phone" by (simp add: actingAs_def)
  have r: "fst (ResolvePath (SpecEngine (flatGrants ROOT)) (actingAs phone)
                  ''bob//clicks'' world0)
       = Inr (Some alice, Some phone, Some clicks, None)"
    by (simp add: fixture_defs resolve_defs)
  from ResolvePath_ignores_user_segment
         [OF s1 s2, of "SpecEngine (flatGrants ROOT)" "actingAs phone" world0 phone]
    s1 s2 d r
  show ?thesis by (metis fst_conv)
qed

section \<open>A Device's own stream\<close>

text \<open>
  Claim C1 says that every caller Device resolves a path of the form "//s" to its owner,
  itself and its stream \<open>s\<close>, or to the error of the stream lookup, with no permission gate
  of its own. The user phase goes through the Operator's \<open>ReadUserById\<close>, which requires
  GeneralPermissions at least ROOT: the Device phone at baseline ENABLED, which has the
  stream clicks, gets \<open>PERMISSION_ERROR\<close> with nothing resolved.
\<close>

theorem ResolvePath_own_stream_counterexample:
  "db_ReadStreamByDeviceIdAndName MemDatabase (Device.DeviceId phone) ''clicks'' mem0
     = ((Some clicks, None), mem0)
   \<and> Stream.DeviceId clicks = Device.DeviceId phone
   \<and> GeneralPermissions (SpecEngine (flatGrants ENABLED)) (Some phone) = ENABLED
   \<and> ResolvePath (SpecEngine (flatGrants ENABLED)) (actingAs phone) ''//clicks'' world0
     = (Inr (None, None, None, Some PERMISSION_ERROR), world0)"
  by (simp add: fixture_defs resolve_defs)

text \<open>
  Claim C1, amended. Let the acting Device be \<open>d1\<close>, \<open>s\<close> a non-empty stream name without
  separator, \<open>(u, ue)\<close> what the storage returns for the user with \<open>d1\<close>'s owner id, and
  \<open>(st, se)\<close> what it then returns for the stream \<open>s\<close> of \<open>d1\<close>. If \<open>d1\<close>'s
  GeneralPermissions is below ROOT, \<open>ResolvePath\<close> returns \<open>PERMISSION_ERROR\<close> with nothing
  resolved and no storage call. Otherwise, if the user lookup failed, it returns that error
  with the user the lookup gave; otherwise it returns \<open>u\<close>, \<open>d1\<close>, and the stream and error
  of the stream lookup.
\<close>

theorem ResolvePath_own_stream:
  assumes "dev opr = Some d1"
    and "CHR ''/'' \<notin> set s" and "s \<noteq> []"
    and "db_ReadUserById (db opr) (Device.UserId d1) (store w) = ((u, ue), m1)"
    and "db_ReadStreamByDeviceIdAndName (db opr) (Device.DeviceId d1) s m1 = ((st, se), m2)"
  shows "ResolvePath us opr (''//'' @ s) w =
     (if \<not> Gte (GeneralPermissions us (Some d1)) ROOT
      then (Inr (None, None, None, Some PERMISSION_ERROR), w)
      else if ue \<noteq> None
      then (Inr (u, None, None, map_option StorageError ue),
            \<lparr> store = m1, calls = calls w @ [CallReadUserById (Device.UserId d1)] \<rparr>)
      else (Inr (u, Some d1, st, map_option StorageError se),
            \<lparr> store = m2,
              calls = calls w @ [CallReadUserById (Device.UserId d1),
                                CallReadStreamByDeviceIdAndName (Device.DeviceId d1) s] \<rparr>))"
proof -
  have sp: "Split (''//'' @ s) = [[], [], s]"
    using assms(2) by (simp add: Split_no_separator)
  show ?thesis
    unfolding ResolvePath_def sp
    using assms(1,3,4,5)
    by (simp add: ResolvePath_user_def ResolvePath_device_def ResolvePath_stream_def
          GetDevice_def GetDatabase_def ReadUserById_def call_val_def)
qed

theorem ResolvePath_own_stream_witness:
  "ResolvePath (SpecEngine (flatGrants ROOT)) (actingAs phone) (''//'' @ ''clicks'') world0
     = (Inr (Some alice, Some phone, Some clicks, None),
        \<lparr> store = mem0,
          calls = [CallReadUserById 1, CallReadStreamByDeviceIdAndName 1 ''clicks''] \<rparr>)
   \<and> ResolvePath (SpecEngine (flatGrants ROOT)) (actingAs phone) (''//'' @ ''keys'') world0
     = (Inr (Some alice, Some phone, None, Some (StorageError NotFound)),
        \<lparr> store = mem0,
          calls = [CallReadUserById 1, CallReadStreamByDeviceIdAndName 1 ''keys''] \<rparr>)"
proof -
  have d: "dev (actingAs phone) = Some phone" by (simp add: actingAs_def)
  have u: "db_ReadUserById (db (actingAs phone)) (Device.UserId phone) (store world0)
             = ((Some alice, None), mem0)"
    by (simp add: fixture_defs)
  have s1: "db_ReadStreamByDeviceIdAndName (db (actingAs phone)) (Device.DeviceId phone)
              ''clicks'' mem0 = ((Some clicks, None), mem0)"
    by (simp add: fixture_defs)
  have s2: "db_ReadStreamByDeviceIdAndName (db (actingAs phone)) (Device.DeviceId phone)
              ''keys'' mem0 = ((None, Some NotFound), mem0)"
    by (simp add: fixture_defs)
  have g: "Gte (GeneralPermissions (SpecEngine (flatGrants ROOT)) (Some phone)) ROOT"
    by (simp add: fixture_defs)
  have c: "calls world0 = []" "Device.UserId phone = 1" "Device.DeviceId phone = 1"
    by (simp_all add: world0_def phone_def)
  show ?thesis
    using ResolvePath_own_stream [OF d _ _ u s1, of "SpecEngine (flatGrants ROOT)"]
      ResolvePath_own_stream [OF d _ _ u s2, of "SpecEngine (flatGrants ROOT)"] g c
    by simp
qed

section \<open>A named device\<close>

text \<open>
  When the device segment is not empty and both the user phase and the device lookup
  succeed, the Device the lookup found is in a variable local to the branch; the result
  \<open>device\<close> is nil. With an empty stream segment \<open>ResolvePath\<close> returns that nil; with a
  stream segment it panics on \<open>device.DeviceId\<close>.
\<close>

lemma ResolvePath_named_device:
  assumes "Split path = [uname, dname, sname]" and "dname \<noteq> []"
    and "dev opr = Some d"
    and "ReadUserById us opr (Device.UserId d) w = ((Some u, None), w1)"
    and "db_ReadDeviceForUserByName (db opr) (User.UserId u) dname (store w1)
           = ((found, None), m2)"
  shows "ResolvePath us opr path w =
     (if sname = [] then Inr (Some u, None, None, None) else Inl NilPointerDereference,
      \<lparr> store = m2, calls = calls w1 @ [CallReadDeviceForUserByName (User.UserId u) dname] \<rparr>)"
  using assms
  by (simp add: ResolvePath_def ResolvePath_user_def ResolvePath_device_def
        ResolvePath_stream_def GetDevice_def call_val_def)

text \<open>
  Claim C2 says that for a non-empty device segment the Device \<open>ResolvePath\<close> returns, and
  uses for the stream lookup, is the one the lookup by owner id and device name produced.
  The lookup is made, by owner id and name; its result is then lost. The Device phone of
  alice, at baseline ROOT, resolves "alice/laptop/": the storage finds laptop, and
  \<open>ResolvePath\<close> returns alice, a nil device, a nil stream and no error.
\<close>

theorem ResolvePath_returns_nil_device:
  "db_ReadDeviceForUserByName MemDatabase 1 ''laptop'' mem0 = ((Some laptop, None), mem0)
   \<and> ResolvePath (SpecEngine (flatGrants ROOT)) (actingAs phone) ''alice/laptop/'' world0
       = (Inr (Some alice, None, None, None),
          \<lparr> store = mem0,
            calls = [CallReadUserById 1, CallReadDeviceForUserByName 1 ''laptop''] \<rparr>)"
  by (simp add: fixture_defs resolve_defs)

text \<open>
  Claim C10 says that \<open>ResolvePath\<close> never dereferences a nil pointer on a path of three
  segments, and that the device whose id the stream lookup reads is non-nil. On
  "alice/laptop/clicks" the Device phone of alice, at baseline ROOT, reaches the stream
  lookup with the nil \<open>device\<close> and panics before the storage is asked for the stream. The
  administrator, whose acting Device is nil, panics on \<open>o.GetDevice().UserId\<close> on every path
  of three segments, here "//clicks".
\<close>

theorem ResolvePath_panics:
  "ResolvePath (SpecEngine (flatGrants ROOT)) (actingAs phone) ''alice/laptop/clicks'' world0
     = (Inl NilPointerDereference,
        \<lparr> store = mem0,
          calls = [CallReadUserById 1, CallReadDeviceForUserByName 1 ''laptop''] \<rparr>)
   \<and> ResolvePath (SpecEngine (flatGrants ROOT)) (GetAdminOperator MemDatabase) ''//clicks''
       world0
     = (Inl NilPointerDereference, world0)"
  by (simp add: fixture_defs resolve_defs)

lemma ResolvePath_administrator_panics:
  "length (Split path) = 3 \<Longrightarrow>
   ResolvePath us (GetAdminOperator database) path w = (Inl NilPointerDereference, w)"
  by (simp add: ResolvePath_def ResolvePath_user_def GetDevice_def GetAdminOperator_def)

end
